theory Spec2Isabelle
  imports Main "HOL-Library.Word"
begin

unbundle bit_operations_syntax

section \<open>Python values used by \<open>app/utils.py\<close>\<close>

text \<open>
  A Python \<open>str\<close> is a sequence of Unicode code points. It is modelled as the list of
  their numbers; a literal of the source is written with \<open>str_lit\<close>. A \<open>str\<close> of Python
  holds code points below \<open>0x110000\<close> only, lone surrogates (\<open>0xD800\<close> to \<open>0xDFFF\<close>)
  included: \<open>'\ud800'\<close> is a \<open>str\<close>, and \<open>json.loads\<close> returns one for the text
  \<open>"\ud800"\<close>.
\<close>

type_synonym pystr = "nat list"
type_synonym byte = "8 word"
type_synonym u32 = "32 word"

definition str_lit :: "string \<Rightarrow> pystr" where
  "str_lit cs = map of_char cs"

definition wf_str :: "pystr \<Rightarrow> bool" where
  "wf_str s = list_all (\<lambda>c. c < 0x110000) s"

text \<open>The exceptions the three functions and the library calls they make can raise.\<close>

datatype error =
    NameError string
  | AttributeError string
  | TypeError
  | IndexError
  | OverflowError
  | UnicodeEncodeError

text \<open>
  The objects a global name of the module can be bound to, and the values its
  expressions go through: a library module, a function defined by a \<open>def\<close>, a builtin,
  a string, a function of a library module, and any other object (\<open>__name__\<close>,
  \<open>__file__\<close> and the like).
\<close>

datatype pymodule = Mod_hashlib | Mod_random | Mod_string

datatype object =
    Module pymodule
  | Function string
  | Builtin string
  | Str pystr
  | LibFunction pymodule string
  | Other

text \<open>
  An argument where the code expects an integer: either an object that can be
  interpreted as one (through \<open>__index__\<close>), or not.
\<close>

datatype pyarg = IntArg int | NonIntArg

section \<open>Name resolution\<close>

type_synonym namespace = "string \<Rightarrow> object option"

text \<open>The names of the \<open>builtins\<close> module (CPython 3.11).\<close>

definition builtin_names :: "string list" where
  "builtin_names = [
    ''ArithmeticError'', ''AssertionError'', ''AttributeError'', ''BaseException'',
    ''BaseExceptionGroup'', ''BlockingIOError'', ''BrokenPipeError'', ''BufferError'',
    ''BytesWarning'', ''ChildProcessError'', ''ConnectionAbortedError'', ''ConnectionError'',
    ''ConnectionRefusedError'', ''ConnectionResetError'', ''DeprecationWarning'', ''EOFError'',
    ''Ellipsis'', ''EncodingWarning'', ''EnvironmentError'', ''Exception'', ''ExceptionGroup'',
    ''False'', ''FileExistsError'', ''FileNotFoundError'', ''FloatingPointError'',
    ''FutureWarning'', ''GeneratorExit'', ''IOError'', ''ImportError'', ''ImportWarning'',
    ''IndentationError'', ''IndexError'', ''InterruptedError'', ''IsADirectoryError'',
    ''KeyError'', ''KeyboardInterrupt'', ''LookupError'', ''MemoryError'',
    ''ModuleNotFoundError'', ''NameError'', ''None'', ''NotADirectoryError'',
    ''NotImplemented'', ''NotImplementedError'', ''OSError'', ''OverflowError'',
    ''PendingDeprecationWarning'', ''PermissionError'', ''ProcessLookupError'',
    ''RecursionError'', ''ReferenceError'', ''ResourceWarning'', ''RuntimeError'',
    ''RuntimeWarning'', ''StopAsyncIteration'', ''StopIteration'', ''SyntaxError'',
    ''SyntaxWarning'', ''SystemError'', ''SystemExit'', ''TabError'', ''TimeoutError'',
    ''True'', ''TypeError'', ''UnboundLocalError'', ''UnicodeDecodeError'',
    ''UnicodeEncodeError'', ''UnicodeError'', ''UnicodeTranslateError'', ''UnicodeWarning'',
    ''UserWarning'', ''ValueError'', ''Warning'', ''ZeroDivisionError'', ''__build_class__'',
    ''__debug__'', ''__doc__'', ''__import__'', ''__loader__'', ''__name__'', ''__package__'',
    ''__spec__'', ''abs'', ''aiter'', ''all'', ''anext'', ''any'', ''ascii'', ''bin'',
    ''bool'', ''breakpoint'', ''bytearray'', ''bytes'', ''callable'', ''chr'', ''classmethod'',
    ''compile'', ''complex'', ''copyright'', ''credits'', ''delattr'', ''dict'', ''dir'',
    ''divmod'', ''enumerate'', ''eval'', ''exec'', ''exit'', ''filter'', ''float'', ''format'',
    ''frozenset'', ''getattr'', ''globals'', ''hasattr'', ''hash'', ''help'', ''hex'', ''id'',
    ''input'', ''int'', ''isinstance'', ''issubclass'', ''iter'', ''len'', ''license'',
    ''list'', ''locals'', ''map'', ''max'', ''memoryview'', ''min'', ''next'', ''object'',
    ''oct'', ''open'', ''ord'', ''pow'', ''print'', ''property'', ''quit'', ''range'',
    ''repr'', ''reversed'', ''round'', ''set'', ''setattr'', ''slice'', ''sorted'',
    ''staticmethod'', ''str'', ''sum'', ''super'', ''tuple'', ''type'', ''vars'', ''zip'']"

text \<open>
  A global name is looked up in the module's globals, then in the builtins; a name
  bound in neither raises \<open>NameError\<close>.
\<close>

definition lookup_name :: "namespace \<Rightarrow> string \<Rightarrow> error + object" where
  "lookup_name G n =
     (case G n of
        Some v \<Rightarrow> Inr v
      | None \<Rightarrow> if n \<in> set builtin_names then Inr (Builtin n) else Inl (NameError n))"

text \<open>
  Attribute access, for the four attributes the source reads: \<open>random.choices\<close>,
  \<open>string.ascii_lowercase\<close>, \<open>string.digits\<close> and \<open>hashlib.sha256\<close>. Any other
  pair of object and attribute raises \<open>AttributeError\<close>.
\<close>

fun getattr :: "object \<Rightarrow> string \<Rightarrow> error + object" where
  "getattr (Module Mod_random) a =
     (if a = ''choices'' then Inr (LibFunction Mod_random ''choices'')
      else Inl (AttributeError a))"
| "getattr (Module Mod_string) a =
     (if a = ''ascii_lowercase'' then Inr (Str (str_lit ''abcdefghijklmnopqrstuvwxyz''))
      else if a = ''digits'' then Inr (Str (str_lit ''0123456789''))
      else Inl (AttributeError a))"
| "getattr (Module Mod_hashlib) a =
     (if a = ''sha256'' then Inr (LibFunction Mod_hashlib ''sha256'')
      else Inl (AttributeError a))"
| "getattr obj a = Inl (AttributeError a)"

text \<open>
  The globals of \<open>app/utils.py\<close> once the module has run: line 1 imports \<open>hashlib\<close>,
  the three \<open>def\<close> statements bind the three functions, and the import system sets the
  module attributes. Nothing else is bound: the module has no other import and no
  assignment.
\<close>

definition utils_globals :: namespace where
  "utils_globals = map_of [
     (''__name__'', Other), (''__doc__'', Other), (''__package__'', Other),
     (''__loader__'', Other), (''__spec__'', Other), (''__file__'', Other),
     (''__cached__'', Other), (''__builtins__'', Other),
     (''hashlib'', Module Mod_hashlib),
     (''make_id'', Function ''make_id''),
     (''hash_weak_password'', Function ''hash_weak_password''),
     (''remove_unwanted_characters'', Function ''remove_unwanted_characters'')]"

section \<open>The state a call runs in\<close>

text \<open>
  The state of the generator behind \<open>random.random()\<close> is modelled by the values it will
  return: CPython's \<open>random()\<close> returns \<open>m / 2^53\<close> for a 53-bit integer \<open>m\<close>, a float in
  \<open>[0.0, 1.0)\<close>, so the state is the sequence of these \<open>m\<close>. A call runs in a world: the
  module's globals and the generator.
\<close>

type_synonym rng = "nat \<Rightarrow> 53 word"

record world =
  globals :: namespace
  rng :: rng

definition utils_world :: "rng \<Rightarrow> world" where
  "utils_world g = \<lparr>globals = utils_globals, rng = g\<rparr>"

section \<open>\<open>str\<close> methods\<close>

text \<open>
  \<open>s.replace(old, new)\<close> replaces the occurrences of \<open>old\<close> in \<open>s\<close>, found from left to
  right without overlap, by \<open>new\<close>. With an empty \<open>old\<close> it puts \<open>new\<close> before every
  character and at the end.
\<close>

function replace_scan :: "pystr \<Rightarrow> pystr \<Rightarrow> pystr \<Rightarrow> pystr" where
  "replace_scan old new [] = []"
| "replace_scan old new (c # cs) =
     (if old \<noteq> [] \<and> take (length old) (c # cs) = old
      then new @ replace_scan old new (drop (length old) (c # cs))
      else c # replace_scan old new cs)"
  by pat_completeness auto
termination
  by (relation "measure (\<lambda>(old, new, s). length s)") (auto simp: neq_Nil_conv)

definition str_replace :: "pystr \<Rightarrow> pystr \<Rightarrow> pystr \<Rightarrow> pystr" where
  "str_replace s old new =
     (if old = [] then new @ concat (map (\<lambda>c. c # new) s)
      else replace_scan old new s)"

text \<open>\<open>sep.join(xs)\<close> for a list of strings.\<close>

fun str_join :: "pystr \<Rightarrow> pystr list \<Rightarrow> pystr" where
  "str_join sep [] = []"
| "str_join sep [x] = x"
| "str_join sep (x # y # ys) = x @ sep @ str_join sep (y # ys)"

text \<open>
  \<open>s.encode()\<close> encodes with UTF-8 and the error handler \<open>strict\<close>: one to four bytes
  for each code point, and \<open>UnicodeEncodeError\<close> (surrogates not allowed) when \<open>s\<close>
  holds a surrogate.
\<close>

definition is_surrogate :: "nat \<Rightarrow> bool" where
  "is_surrogate c = (0xD800 \<le> c \<and> c \<le> 0xDFFF)"

definition has_surrogate :: "pystr \<Rightarrow> bool" where
  "has_surrogate s = list_ex is_surrogate s"

definition utf8_char :: "nat \<Rightarrow> byte list" where
  "utf8_char c =
     (if c < 0x80 then [of_nat c]
      else if c < 0x800 then [of_nat (0xC0 + c div 64), of_nat (0x80 + c mod 64)]
      else if c < 0x10000 then
        [of_nat (0xE0 + c div 4096), of_nat (0x80 + c div 64 mod 64), of_nat (0x80 + c mod 64)]
      else
        [of_nat (0xF0 + c div 262144), of_nat (0x80 + c div 4096 mod 64),
         of_nat (0x80 + c div 64 mod 64), of_nat (0x80 + c mod 64)])"

definition utf8_bytes :: "pystr \<Rightarrow> byte list" where
  "utf8_bytes s = concat (map utf8_char s)"

definition str_encode :: "pystr \<Rightarrow> error + byte list" where
  "str_encode s = (if has_surrogate s then Inl UnicodeEncodeError else Inr (utf8_bytes s))"

section \<open>\<open>hashlib.sha256\<close>: SHA-256 of FIPS 180-4\<close>

definition rotr :: "nat \<Rightarrow> u32 \<Rightarrow> u32" where
  "rotr n x = drop_bit n x OR push_bit (32 - n) x"

definition Ch :: "u32 \<Rightarrow> u32 \<Rightarrow> u32 \<Rightarrow> u32" where
  "Ch x y z = (x AND y) XOR (NOT x AND z)"

definition Maj :: "u32 \<Rightarrow> u32 \<Rightarrow> u32 \<Rightarrow> u32" where
  "Maj x y z = (x AND y) XOR (x AND z) XOR (y AND z)"

definition bsig0 :: "u32 \<Rightarrow> u32" where
  "bsig0 x = rotr 2 x XOR rotr 13 x XOR rotr 22 x"

definition bsig1 :: "u32 \<Rightarrow> u32" where
  "bsig1 x = rotr 6 x XOR rotr 11 x XOR rotr 25 x"

definition ssig0 :: "u32 \<Rightarrow> u32" where
  "ssig0 x = rotr 7 x XOR rotr 18 x XOR drop_bit 3 x"

definition ssig1 :: "u32 \<Rightarrow> u32" where
  "ssig1 x = rotr 17 x XOR rotr 19 x XOR drop_bit 10 x"

definition K256 :: "u32 list" where
  "K256 = [
    0x428A2F98, 0x71374491, 0xB5C0FBCF, 0xE9B5DBA5, 0x3956C25B, 0x59F111F1, 0x923F82A4, 0xAB1C5ED5,
    0xD807AA98, 0x12835B01, 0x243185BE, 0x550C7DC3, 0x72BE5D74, 0x80DEB1FE, 0x9BDC06A7, 0xC19BF174,
    0xE49B69C1, 0xEFBE4786, 0x0FC19DC6, 0x240CA1CC, 0x2DE92C6F, 0x4A7484AA, 0x5CB0A9DC, 0x76F988DA,
    0x983E5152, 0xA831C66D, 0xB00327C8, 0xBF597FC7, 0xC6E00BF3, 0xD5A79147, 0x06CA6351, 0x14292967,
    0x27B70A85, 0x2E1B2138, 0x4D2C6DFC, 0x53380D13, 0x650A7354, 0x766A0ABB, 0x81C2C92E, 0x92722C85,
    0xA2BFE8A1, 0xA81A664B, 0xC24B8B70, 0xC76C51A3, 0xD192E819, 0xD6990624, 0xF40E3585, 0x106AA070,
    0x19A4C116, 0x1E376C08, 0x2748774C, 0x34B0BCB5, 0x391C0CB3, 0x4ED8AA4A, 0x5B9CCA4F, 0x682E6FF3,
    0x748F82EE, 0x78A5636F, 0x84C87814, 0x8CC70208, 0x90BEFFFA, 0xA4506CEB, 0xBEF9A3F7, 0xC67178F2]"

type_synonym hstate = "u32 \<times> u32 \<times> u32 \<times> u32 \<times> u32 \<times> u32 \<times> u32 \<times> u32"

definition H256 :: hstate where
  "H256 = (0x6A09E667, 0xBB67AE85, 0x3C6EF372, 0xA54FF53A,
           0x510E527F, 0x9B05688C, 0x1F83D9AB, 0x5BE0CD19)"

text \<open>Big-endian: four bytes as a word, and a word as its \<open>n\<close> low bytes.\<close>

definition be32 :: "byte list \<Rightarrow> u32" where
  "be32 bs = foldl (\<lambda>acc b. push_bit 8 acc OR ucast b) 0 (take 4 bs)"

definition be_bytes :: "nat \<Rightarrow> 'a::len word \<Rightarrow> byte list" where
  "be_bytes n v = map (\<lambda>i. ucast (drop_bit (8 * (n - 1 - i)) v)) [0..<n]"

fun block_words :: "nat \<Rightarrow> byte list \<Rightarrow> u32 list" where
  "block_words 0 bs = []"
| "block_words (Suc n) bs = be32 bs # block_words n (drop 4 bs)"

text \<open>The message schedule: \<open>extend 48\<close> takes the 16 words of a block to the 64.\<close>

fun extend :: "nat \<Rightarrow> u32 list \<Rightarrow> u32 list" where
  "extend 0 w = w"
| "extend (Suc n) w =
     (let t = length w in
      extend n (w @ [ssig1 (w ! (t - 2)) + w ! (t - 7) + ssig0 (w ! (t - 15)) + w ! (t - 16)]))"

definition round256 :: "hstate \<Rightarrow> u32 \<times> u32 \<Rightarrow> hstate" where
  "round256 st kw =
     (case st of (a, b, c, d, e, f, g, h) \<Rightarrow>
        let t1 = h + bsig1 e + Ch e f g + fst kw + snd kw;
            t2 = bsig0 a + Maj a b c
        in (t1 + t2, a, b, c, d + t1, e, f, g))"

definition add_state :: "hstate \<Rightarrow> hstate \<Rightarrow> hstate" where
  "add_state s t =
     (case s of (a, b, c, d, e, f, g, h) \<Rightarrow>
      case t of (a', b', c', d', e', f', g', h') \<Rightarrow>
        (a + a', b + b', c + c', d + d', e + e', f + f', g + g', h + h'))"

definition compress :: "hstate \<Rightarrow> byte list \<Rightarrow> hstate" where
  "compress hs block =
     add_state hs (foldl round256 hs (zip K256 (extend 48 (block_words 16 block))))"

text \<open>
  Padding: the byte \<open>0x80\<close>, zero bytes up to 56 modulo 64, and the length of the
  message in bits as 64 bits.
\<close>

definition pad :: "byte list \<Rightarrow> byte list" where
  "pad bs = bs @ [0x80] @ replicate ((119 - length bs mod 64) mod 64) 0
              @ be_bytes 8 (8 * of_nat (length bs) :: 64 word)"

fun split_blocks :: "nat \<Rightarrow> byte list \<Rightarrow> byte list list" where
  "split_blocks 0 bs = []"
| "split_blocks (Suc n) bs = take 64 bs # split_blocks n (drop 64 bs)"

definition sha256 :: "byte list \<Rightarrow> byte list" where
  "sha256 bs =
     (let p = pad bs in
      case foldl compress H256 (split_blocks (length p div 64) p) of
        (a, b, c, d, e, f, g, h) \<Rightarrow>
          concat (map (be_bytes 4) [a, b, c, d, e, f, g, h]))"

text \<open>\<open>hexdigest()\<close>: two lowercase hexadecimal digits for each byte of the digest.\<close>

definition hex_alphabet :: pystr where
  "hex_alphabet = str_lit ''0123456789abcdef''"

definition hex_byte :: "byte \<Rightarrow> pystr" where
  "hex_byte b = [hex_alphabet ! (unat b div 16), hex_alphabet ! (unat b mod 16)]"

definition hexdigest :: "byte list \<Rightarrow> pystr" where
  "hexdigest bs = concat (map hex_byte bs)"

fun call_sha256 :: "object \<Rightarrow> byte list \<Rightarrow> error + byte list" where
  "call_sha256 (LibFunction Mod_hashlib f) bs =
     (if f = ''sha256'' then Inr (sha256 bs) else Inl TypeError)"
| "call_sha256 obj bs = Inl TypeError"

section \<open>\<open>random.choices\<close>\<close>

text \<open>
  \<open>random.choices(population, k=k)\<close> without weights is, in CPython 3.9 and later,
  \<open>[population[floor(random() * n)] for i in _repeat(None, k)]\<close> with
  \<open>n = len(population) + 0.0\<close>.

  \<open>itertools.repeat(None, k)\<close> takes its count as a C \<open>ssize_t\<close>: it raises
  \<open>TypeError\<close> when \<open>k\<close> is not an integer and \<open>OverflowError\<close> when \<open>k\<close> is below
  \<open>-2^63\<close> or not below \<open>2^63\<close> (a 64-bit build), in both cases before anything is
  drawn. A count that is zero or negative yields nothing; otherwise there are \<open>k\<close>
  draws. The list is built in a memory without bound.

  The index of a draw is computed in doubles. \<open>random()\<close> is \<open>m / 2^53\<close> for the 53-bit
  \<open>m\<close> of the draw, which is exact; the product with \<open>n\<close> is rounded to the nearest
  double, ties to even, and \<open>floor\<close> is exact. Rounding a double does not depend on its
  scale, so the rounded product is \<open>round_double (m * n) / 2^53\<close>, where \<open>round_double\<close>
  rounds a natural number to 53 significant bits. (\<open>n\<close> itself is exact for a
  population of fewer than \<open>2^53\<close> characters.) The result is a list of one-character
  strings.
\<close>

fun bit_length :: "nat \<Rightarrow> nat" where
  "bit_length n = (if n = 0 then 0 else Suc (bit_length (n div 2)))"

declare bit_length.simps [simp del]

definition round_double :: "nat \<Rightarrow> nat" where
  "round_double p =
     (if p < 2 ^ 53 then p
      else
        let e = bit_length p - 53;
            q = p div 2 ^ e;
            r = p mod 2 ^ e;
            h = 2 ^ (e - 1)
        in (if h < r \<or> (r = h \<and> odd q) then q + 1 else q) * 2 ^ e)"

definition draw_index :: "53 word \<Rightarrow> nat \<Rightarrow> nat" where
  "draw_index m n = round_double (unat m * n) div 2 ^ 53"

fun draws :: "pystr \<Rightarrow> nat \<Rightarrow> rng \<Rightarrow> (error + pystr list) \<times> rng" where
  "draws pop 0 g = (Inr [], g)"
| "draws pop (Suc n) g =
     (let i = draw_index (g 0) (length pop);
          g' = (\<lambda>j. g (Suc j))
      in if i < length pop then
           (case draws pop n g' of
              (Inr cs, g'') \<Rightarrow> (Inr ([pop ! i] # cs), g'')
            | (Inl e, g'') \<Rightarrow> (Inl e, g''))
         else (Inl IndexError, g'))"

fun random_choices :: "pystr \<Rightarrow> pyarg \<Rightarrow> rng \<Rightarrow> (error + pystr list) \<times> rng" where
  "random_choices pop (IntArg k) g =
     (if k < - (2 ^ 63) \<or> 2 ^ 63 \<le> k then (Inl OverflowError, g)
      else draws pop (nat k) g)"
| "random_choices pop NonIntArg g = (Inl TypeError, g)"

fun call_choices ::
  "object \<Rightarrow> object \<Rightarrow> pyarg \<Rightarrow> rng \<Rightarrow> (error + pystr list) \<times> rng" where
  "call_choices (LibFunction Mod_random f) (Str pop) k g =
     (if f = ''choices'' then random_choices pop k g else (Inl TypeError, g))"
| "call_choices obj pop k g = (Inl TypeError, g)"

text \<open>\<open>a + b\<close> on two strings; on the other objects of the model it raises.\<close>

fun py_add :: "object \<Rightarrow> object \<Rightarrow> error + object" where
  "py_add (Str a) (Str b) = Inr (Str (a @ b))"
| "py_add a b = Inl TypeError"

section \<open>The three functions of \<open>app/utils.py\<close>\<close>

text \<open>
  \<open>def make_id(k=8): return ''.join(random.choices(string.ascii_lowercase +
  string.digits, k=k))\<close>. The argument is \<open>None\<close> when the caller gives none. The
  expression is evaluated in Python's order: the callee \<open>random.choices\<close>, then the
  arguments, then the call, then \<open>join\<close>.
\<close>

definition make_id :: "world \<Rightarrow> pyarg option \<Rightarrow> (error + pystr) \<times> world" where
  "make_id w kopt =
     (let k = (case kopt of None \<Rightarrow> IntArg 8 | Some a \<Rightarrow> a) in
      case lookup_name (globals w) ''random'' of Inl e \<Rightarrow> (Inl e, w) | Inr m \<Rightarrow>
      case getattr m ''choices'' of Inl e \<Rightarrow> (Inl e, w) | Inr f \<Rightarrow>
      case lookup_name (globals w) ''string'' of Inl e \<Rightarrow> (Inl e, w) | Inr s1 \<Rightarrow>
      case getattr s1 ''ascii_lowercase'' of Inl e \<Rightarrow> (Inl e, w) | Inr lower \<Rightarrow>
      case lookup_name (globals w) ''string'' of Inl e \<Rightarrow> (Inl e, w) | Inr s2 \<Rightarrow>
      case getattr s2 ''digits'' of Inl e \<Rightarrow> (Inl e, w) | Inr digits \<Rightarrow>
      case py_add lower digits of Inl e \<Rightarrow> (Inl e, w) | Inr pop \<Rightarrow>
      case call_choices f pop k (rng w) of
        (Inl e, g') \<Rightarrow> (Inl e, w\<lparr>rng := g'\<rparr>)
      | (Inr xs, g') \<Rightarrow> (Inr (str_join (str_lit '''') xs), w\<lparr>rng := g'\<rparr>))"

text \<open>
  \<open>def hash_weak_password(s): return hashlib.sha256(("salty$" + s).encode()).hexdigest()\<close>
\<close>

definition hash_weak_password :: "world \<Rightarrow> pystr \<Rightarrow> (error + pystr) \<times> world" where
  "hash_weak_password w s =
     (case lookup_name (globals w) ''hashlib'' of Inl e \<Rightarrow> (Inl e, w) | Inr m \<Rightarrow>
      case getattr m ''sha256'' of Inl e \<Rightarrow> (Inl e, w) | Inr f \<Rightarrow>
      case str_encode (str_lit ''salty$'' @ s) of Inl e \<Rightarrow> (Inl e, w) | Inr bs \<Rightarrow>
      case call_sha256 f bs of Inl e \<Rightarrow> (Inl e, w) | Inr d \<Rightarrow> (Inr (hexdigest d), w))"

text \<open>\<open>def remove_unwanted_characters(s: str): return s.replace("<", "")\<close>\<close>

definition remove_unwanted_characters :: "pystr \<Rightarrow> pystr" where
  "remove_unwanted_characters s = str_replace s (str_lit ''<'') (str_lit '''')"

section \<open>The contracts in the words of the specification\<close>

text \<open>
  The digest of a secret: SHA-256 of the UTF-8 encoding of \<open>salty$\<close> followed by the
  secret, as lowercase hexadecimal.
\<close>

definition spec_hash_password :: "pystr \<Rightarrow> pystr" where
  "spec_hash_password s = hexdigest (sha256 (utf8_bytes (str_lit ''salty$'' @ s)))"

text \<open>The alphabet of identifiers: lowercase letters and digits.\<close>

definition id_alphabet :: pystr where
  "id_alphabet = str_lit ''abcdefghijklmnopqrstuvwxyz0123456789''"

text \<open>The code point of \<open><\<close>.\<close>

abbreviation lt_char :: nat where
  "lt_char \<equiv> 60"

section \<open>A world where the two missing names are bound\<close>

text \<open>
  The globals of the module with \<open>random\<close> and \<open>string\<close> bound to the library modules,
  as after \<open>import random, string\<close>, and a generator that returns \<open>0.0\<close> for ever.
\<close>

definition patched_world :: world where
  "patched_world = \<lparr>globals = utils_globals(''random'' \<mapsto> Module Mod_random,
      ''string'' \<mapsto> Module Mod_string), rng = (\<lambda>i. 0)\<rparr>"

section \<open>Properties of \<open>remove_unwanted_characters\<close>\<close>

lemma str_lit_lt: "str_lit ''<'' = [lt_char]"
  by (simp add: str_lit_def)

lemma str_lit_empty: "str_lit '''' = []"
  by (simp add: str_lit_def)

lemma replace_scan_single:
  "replace_scan [x] [] s = filter (\<lambda>c. c \<noteq> x) s"
  by (induction s) auto

lemma remove_unwanted_characters_filter:
  "remove_unwanted_characters s = filter (\<lambda>c. c \<noteq> lt_char) s"
  by (simp add: remove_unwanted_characters_def str_replace_def str_lit_lt str_lit_empty
      replace_scan_single)

text \<open>
  C4: \<open>remove_unwanted_characters s\<close> is \<open>s\<close> with every \<open><\<close> deleted and the other
  characters kept in their order; so the result holds no \<open><\<close>, and the empty string is
  mapped to the empty string.
\<close>

theorem sanitize_deletes_lt:
  "remove_unwanted_characters s = filter (\<lambda>c. c \<noteq> lt_char) s
   \<and> lt_char \<notin> set (remove_unwanted_characters s)
   \<and> remove_unwanted_characters [] = []"
  by (simp add: remove_unwanted_characters_filter)

text \<open>
  C5: \<open>remove_unwanted_characters\<close> is idempotent.
\<close>

theorem sanitize_idempotent:
  "remove_unwanted_characters (remove_unwanted_characters s) = remove_unwanted_characters s"
  by (simp add: remove_unwanted_characters_filter)

lemma length_filter_neq_count:
  "length (filter (\<lambda>c. c \<noteq> x) s) = length s - count_list s x"
proof (induction s)
  case Nil
  show ?case by simp
next
  case (Cons a s)
  have "count_list s x \<le> length s" by (rule count_le_length)
  with Cons show ?case by (simp add: Suc_diff_le)
qed

text \<open>
  C6: the length of \<open>remove_unwanted_characters s\<close> is the length of \<open>s\<close> minus the
  number of occurrences of \<open><\<close> in \<open>s\<close>.
\<close>

theorem sanitize_length:
  "length (remove_unwanted_characters s) = length s - count_list s lt_char"
  by (simp add: remove_unwanted_characters_filter length_filter_neq_count)

text \<open>
  C10: \<open>remove_unwanted_characters\<close> returns its argument unchanged exactly when the
  argument holds no \<open><\<close>.
\<close>

theorem sanitize_identity_iff:
  "(remove_unwanted_characters s = s) = (lt_char \<notin> set s)"
proof
  assume "remove_unwanted_characters s = s"
  then have "set s = set (filter (\<lambda>c. c \<noteq> lt_char) s)"
    by (simp add: remove_unwanted_characters_filter)
  then show "lt_char \<notin> set s" by auto
next
  assume "lt_char \<notin> set s"
  then have "filter (\<lambda>c. c \<noteq> lt_char) s = s"
    by (induction s) auto
  then show "remove_unwanted_characters s = s"
    by (simp add: remove_unwanted_characters_filter)
qed

section \<open>Name resolution in the module as written\<close>

lemma lookup_hashlib: "lookup_name utils_globals ''hashlib'' = Inr (Module Mod_hashlib)"
  by (simp add: lookup_name_def utils_globals_def)

lemma lookup_random: "lookup_name utils_globals ''random'' = Inl (NameError ''random'')"
  by (simp add: lookup_name_def utils_globals_def builtin_names_def)

text \<open>
  C9: in the module as written every call of \<open>make_id\<close>, whatever the argument (an
  integer, something else, or none), raises \<open>NameError\<close> for \<open>random\<close>, draws nothing
  from the generator and returns no string.
\<close>

theorem make_id_name_error:
  "make_id (utils_world g) kopt = (Inl (NameError ''random''), utils_world g)"
  by (simp add: make_id_def utils_world_def lookup_random)

text \<open>
  C7: the claim is that \<open>make_id(k)\<close> returns \<open>k\<close> characters of \<open>[a-z0-9]\<close>. The module
  as written raises \<open>NameError\<close> instead, at \<open>make_id(8)\<close>, at \<open>make_id()\<close> and at
  \<open>make_id(0)\<close>.
\<close>

theorem make_id_fails_as_written:
  "fst (make_id (utils_world (\<lambda>i. 0)) (Some (IntArg 8))) = Inl (NameError ''random'')
   \<and> fst (make_id (utils_world (\<lambda>i. 0)) None) = Inl (NameError ''random'')
   \<and> fst (make_id (utils_world (\<lambda>i. 0)) (Some (IntArg 0))) = Inl (NameError ''random'')"
  by (simp add: make_id_def utils_world_def lookup_random)

section \<open>\<open>make_id\<close> where \<open>random\<close> and \<open>string\<close> are bound\<close>

lemma str_join_empty: "str_join [] xs = concat xs"
  by (induction "[] :: pystr" xs rule: str_join.induct) simp_all

lemma bit_length_0: "bit_length 0 = 0"
  by (subst bit_length.simps) simp

lemma bit_length_pos: "0 < p \<Longrightarrow> bit_length p = Suc (bit_length (p div 2))"
  by (subst bit_length.simps) simp

lemma bit_length_bounds:
  "0 < p \<Longrightarrow> 2 ^ (bit_length p - 1) \<le> p \<and> p < 2 ^ bit_length p"
proof (induction p rule: bit_length.induct)
  case (1 n)
  show ?case
  proof (cases "n div 2 = 0")
    case True
    with \<open>0 < n\<close> have "n = 1" by (simp add: div_eq_0_iff)
    then show ?thesis
      by (simp add: bit_length_pos bit_length_0)
  next
    case False
    then have pos: "0 < n div 2" by simp
    with 1 have ih: "2 ^ (bit_length (n div 2) - 1) \<le> n div 2"
      "n div 2 < 2 ^ bit_length (n div 2)"
      by simp_all
    have bl: "bit_length n = Suc (bit_length (n div 2))"
      using \<open>0 < n\<close> by (rule bit_length_pos)
    have "0 < bit_length (n div 2)"
      using pos by (simp add: bit_length_pos)
    then have "(2::nat) ^ bit_length (n div 2) = 2 * 2 ^ (bit_length (n div 2) - 1)"
      by (cases "bit_length (n div 2)") simp_all
    with ih(1) have lo: "2 ^ bit_length (n div 2) \<le> n" by arith
    have hi: "n < 2 * 2 ^ bit_length (n div 2)" using ih(2) by arith
    show ?thesis using lo hi by (simp add: bl)
  qed
qed

text \<open>
  Rounding to a double moves a number by at most half a unit in the last place, which
  is less than \<open>n\<close> when the number is a product \<open>m * n\<close> with \<open>m\<close> below \<open>2^53\<close>.
\<close>

lemma round_double_less:
  assumes "p + n \<le> n * 2 ^ 53" and "0 < n"
  shows "round_double p < n * 2 ^ 53"
proof (cases "p < 2 ^ 53")
  case True
  with assms show ?thesis by (simp add: round_double_def)
next
  case False
  define e where "e = bit_length p - 53"
  define h :: nat where "h = 2 ^ (e - 1)"
  have p53: "(2::nat) ^ 53 \<le> p" using False by simp
  then have ppos: "0 < p" by (meson less_le_trans zero_less_numeral zero_less_power)
  have lo: "2 ^ (bit_length p - 1) \<le> p" and hi: "p < 2 ^ bit_length p"
    using bit_length_bounds [OF ppos] by simp_all
  have "(2::nat) ^ 53 < 2 ^ bit_length p" using p53 hi by simp
  then have bl: "53 < bit_length p"
    by (rule power_less_imp_less_exp [rotated]) simp
  then have epos: "0 < e" and ble: "bit_length p - 1 = 52 + e"
    by (simp_all add: e_def)
  have two_e: "(2::nat) ^ e = 2 * h"
    using epos by (cases e) (simp_all add: h_def)
  have "(2::nat) ^ (52 + e) \<le> p" using lo ble by simp
  then have "2 ^ 52 * (2 * h) \<le> p" by (simp add: power_add two_e)
  then have "2 ^ 53 * h \<le> p" by simp
  also have "p < n * 2 ^ 53" using assms by simp
  finally have hn: "h < n" by simp
  have split: "p div 2 ^ e * 2 ^ e + p mod 2 ^ e = p" by (rule div_mult_mod_eq)
  have "round_double p \<le> p + h"
  proof (cases "h < p mod 2 ^ e \<or> (p mod 2 ^ e = h \<and> odd (p div 2 ^ e))")
    case True
    then have r: "h \<le> p mod 2 ^ e" by auto
    have "round_double p = (p div 2 ^ e + 1) * 2 ^ e"
      using False True by (simp add: round_double_def Let_def e_def h_def)
    also have "\<dots> = p div 2 ^ e * 2 ^ e + 2 * h" by (simp add: two_e)
    also have "\<dots> \<le> p + h" using split r by arith
    finally show ?thesis .
  next
    case no: False
    then have "round_double p = p div 2 ^ e * 2 ^ e"
      using False by (simp add: round_double_def Let_def e_def h_def)
    also have "\<dots> \<le> p" using split by arith
    finally show ?thesis by simp
  qed
  also have "\<dots> < p + n" using hn by simp
  finally show ?thesis using assms by simp
qed

lemma draw_index_less:
  assumes "pop \<noteq> []"
  shows "draw_index m (length pop) < length pop"
proof -
  have "unat m < 2 ^ 53" using unsigned_less [of m] by simp
  then have "unat m + 1 \<le> 2 ^ 53" by simp
  then have "(unat m + 1) * length pop \<le> 2 ^ 53 * length pop"
    by (rule mult_le_mono1)
  then have "unat m * length pop + length pop \<le> length pop * 2 ^ 53"
    by (simp add: mult.commute)
  moreover have "0 < length pop" using assms by simp
  ultimately have "round_double (unat m * length pop) < length pop * 2 ^ 53"
    by (rule round_double_less)
  then show ?thesis
    by (simp add: draw_index_def div_less_iff_less_mult)
qed

text \<open>
  The index where the rounding shows: for \<open>m = 8756999275442631\<close> and the 36
  characters of the alphabet CPython draws index 35, one more than the exact
  quotient.
\<close>

lemma draw_index_rounds:
  "draw_index 8756999275442631 36 = 35 \<and> 8756999275442631 * 36 div 2 ^ 53 = (34::nat)"
  by (simp add: draw_index_def round_double_def Let_def bit_length_pos bit_length_0)

lemma draws_total:
  assumes "pop \<noteq> []"
  shows "\<exists>cs g'. draws pop n g = (Inr cs, g') \<and> length (concat cs) = n
                 \<and> set (concat cs) \<subseteq> set pop"
proof (induction n arbitrary: g)
  case 0
  show ?case by simp
next
  case (Suc n)
  let ?i = "draw_index (g 0) (length pop)"
  have i: "?i < length pop" by (rule draw_index_less [OF assms])
  obtain cs g' where d: "draws pop n (\<lambda>j. g (Suc j)) = (Inr cs, g')"
    and l: "length (concat cs) = n" and s: "set (concat cs) \<subseteq> set pop"
    using Suc.IH by blast
  have "draws pop (Suc n) g = (Inr ([pop ! ?i] # cs), g')"
    using i d by (simp add: Let_def)
  moreover have "pop ! ?i \<in> set pop" using i by simp
  ultimately show ?case using l s by simp
qed

lemma id_alphabet_concat:
  "str_lit ''abcdefghijklmnopqrstuvwxyz'' @ str_lit ''0123456789'' = id_alphabet"
  by (simp add: id_alphabet_def str_lit_def)

lemma id_alphabet_nonempty: "id_alphabet \<noteq> []"
  by (simp add: id_alphabet_def str_lit_def)

lemma make_id_bound:
  assumes "globals w ''random'' = Some (Module Mod_random)"
    and "globals w ''string'' = Some (Module Mod_string)"
  shows "make_id w (Some (IntArg k)) =
     (if k < - (2 ^ 63) \<or> 2 ^ 63 \<le> k then (Inl OverflowError, w)
      else case draws id_alphabet (nat k) (rng w) of
        (Inl e, g') \<Rightarrow> (Inl e, w\<lparr>rng := g'\<rparr>)
      | (Inr xs, g') \<Rightarrow> (Inr (concat xs), w\<lparr>rng := g'\<rparr>))"
  by (simp add: make_id_def lookup_name_def assms id_alphabet_concat str_join_empty
      str_lit_empty split: prod.split sum.split)

text \<open>
  What the body of \<open>make_id\<close> computes once the two names are bound, for a count in
  the range of \<open>ssize_t\<close>: \<open>max k 0\<close> characters of \<open>[a-z0-9]\<close>.
\<close>

lemma make_id_bound_in_range:
  assumes "globals w ''random'' = Some (Module Mod_random)"
    and "globals w ''string'' = Some (Module Mod_string)"
    and "- (2 ^ 63) \<le> k" and "k < 2 ^ 63"
  shows "\<exists>r g'. make_id w (Some (IntArg k)) = (Inr r, w\<lparr>rng := g'\<rparr>) \<and> length r = nat k
            \<and> set r \<subseteq> set id_alphabet"
proof -
  obtain cs g' where d: "draws id_alphabet (nat k) (rng w) = (Inr cs, g')"
    and l: "length (concat cs) = nat k" and s: "set (concat cs) \<subseteq> set id_alphabet"
    using draws_total [OF id_alphabet_nonempty] by blast
  have "make_id w (Some (IntArg k)) = (Inr (concat cs), w\<lparr>rng := g'\<rparr>)"
    using assms(3,4) by (simp add: make_id_bound [OF assms(1,2)] d)
  with l s show ?thesis by blast
qed

text \<open>
  C8, as the code has it: \<open>make_id\<close> does not validate its argument. Where the names
  \<open>random\<close> and \<open>string\<close> are bound to the library modules, \<open>make_id(k)\<close> for a
  negative \<open>k\<close> not below \<open>-2^63\<close> returns the empty string: it raises nothing and
  draws nothing. For an integer outside the range of \<open>ssize_t\<close>, of either sign,
  the call raises \<open>OverflowError\<close> in \<open>random.choices\<close>.
\<close>

theorem make_id_no_validation:
  assumes "globals w ''random'' = Some (Module Mod_random)"
    and "globals w ''string'' = Some (Module Mod_string)"
  shows "(- (2 ^ 63) \<le> k \<and> k < 0 \<longrightarrow> make_id w (Some (IntArg k)) = (Inr [], w))
         \<and> (k < - (2 ^ 63) \<or> 2 ^ 63 \<le> k
              \<longrightarrow> make_id w (Some (IntArg k)) = (Inl OverflowError, w))"
  by (simp add: make_id_bound [OF assms])

text \<open>
  The theorem at \<open>k = -1\<close> and at \<open>k = 2^63\<close>, in the module's globals with the two
  names bound.
\<close>

theorem make_id_no_validation_witness:
  "globals patched_world ''random'' = Some (Module Mod_random)
   \<and> globals patched_world ''string'' = Some (Module Mod_string)
   \<and> make_id patched_world (Some (IntArg (- 1))) = (Inr [], patched_world)
   \<and> make_id patched_world (Some (IntArg (2 ^ 63))) = (Inl OverflowError, patched_world)"
  using make_id_no_validation [of patched_world "- 1"]
    make_id_no_validation [of patched_world "2 ^ 63"]
  by (simp add: patched_world_def)

text \<open>
  Against C8 as stated: at \<open>k = -1\<close> the module as written raises \<open>NameError\<close>, the
  same error as at \<open>k = 0\<close> and not one about the argument; and with the two names
  bound \<open>make_id(-1)\<close> returns the empty string.
\<close>

theorem make_id_validation_counterexample:
  "make_id (utils_world (\<lambda>i. 0)) (Some (IntArg (- 1)))
     = (Inl (NameError ''random''), utils_world (\<lambda>i. 0))
   \<and> make_id (utils_world (\<lambda>i. 0)) (Some (IntArg 0))
     = (Inl (NameError ''random''), utils_world (\<lambda>i. 0))
   \<and> make_id patched_world (Some (IntArg (- 1))) = (Inr [], patched_world)"
proof -
  have "make_id (utils_world (\<lambda>i. 0)) kopt
      = (Inl (NameError ''random''), utils_world (\<lambda>i. 0))" for kopt
    by (simp add: make_id_def utils_world_def lookup_random)
  moreover have "make_id patched_world (Some (IntArg (- 1))) = (Inr [], patched_world)"
    by (simp add: make_id_bound patched_world_def)
  ultimately show ?thesis by simp
qed

section \<open>Properties of \<open>hash_weak_password\<close>\<close>

lemma utf8_char_examples:
  "utf8_char 0x41 = [0x41] \<and> utf8_char 0xE9 = [0xC3, 0xA9]
   \<and> utf8_char 0x20AC = [0xE2, 0x82, 0xAC] \<and> utf8_char 0x1F600 = [0xF0, 0x9F, 0x98, 0x80]"
  by (simp add: utf8_char_def)

lemma has_surrogate_salty: "has_surrogate (str_lit ''salty$'' @ s) = has_surrogate s"
  by (simp add: has_surrogate_def str_lit_def is_surrogate_def)

lemma hash_weak_password_utils:
  "hash_weak_password (utils_world g) s =
     (if has_surrogate s then (Inl UnicodeEncodeError, utils_world g)
      else (Inr (spec_hash_password s), utils_world g))"
  by (simp add: hash_weak_password_def utils_world_def lookup_hashlib str_encode_def
      has_surrogate_salty spec_hash_password_def)

text \<open>
  The two digests, computed by the model of SHA-256; they are the digests that
  \<open>sha256sum\<close> prints for the bytes \<open>salty$password\<close> and \<open>salty$\<close>.
\<close>

lemma digest_salty_password:
  "spec_hash_password (str_lit ''password'')
     = str_lit ''4c7607a637d8c0e9f144ed9c159f71416cd9fc83457a70a475556f9a1b6ee3e0''"
  by code_simp

lemma digest_salty:
  "spec_hash_password (str_lit '''')
     = str_lit ''197eebc41e268d53e071432f068c3365be4fd445bb08311cb6fc2495ac58bf92''"
  by code_simp

text \<open>A secret outside ASCII, with code points of two, three and four bytes.\<close>

lemma digest_salty_non_ascii:
  "spec_hash_password [0xE9, 0x20AC, 0x1F600]
     = str_lit ''70fe9cc912af7c7deb7654d0cba272a0c6902d0e26a9d6b8354be04bc0587fbf''"
proof -
  have "utf8_bytes (str_lit ''salty$'' @ [0xE9, 0x20AC, 0x1F600])
      = [0x73, 0x61, 0x6C, 0x74, 0x79, 0x24, 0xC3, 0xA9, 0xE2, 0x82, 0xAC, 0xF0, 0x9F, 0x98, 0x80]"
    by (simp add: utf8_bytes_def utf8_char_def str_lit_def)
  moreover have "hexdigest (sha256
        [0x73, 0x61, 0x6C, 0x74, 0x79, 0x24, 0xC3, 0xA9, 0xE2, 0x82, 0xAC, 0xF0, 0x9F, 0x98, 0x80])
      = str_lit ''70fe9cc912af7c7deb7654d0cba272a0c6902d0e26a9d6b8354be04bc0587fbf''"
    by code_simp
  ultimately show ?thesis by (simp only: spec_hash_password_def)
qed

lemma no_surrogate_password:"\<not> has_surrogate (str_lit ''password'')"
  by (simp add: has_surrogate_def str_lit_def is_surrogate_def)

lemma no_surrogate_empty: "\<not> has_surrogate (str_lit '''')"
  by (simp add: has_surrogate_def str_lit_def)

text \<open>
  C1, as the code has it: for a string without a surrogate code point
  \<open>hash_weak_password\<close> returns the SHA-256 digest of the UTF-8 encoding of \<open>salty$\<close>
  followed by the string, in lowercase hexadecimal; for a string with a surrogate it
  raises \<open>UnicodeEncodeError\<close>. For \<open>password\<close> and for the empty string the results
  are the digests of \<open>salty$password\<close> and of \<open>salty$\<close>.
\<close>

theorem hash_weak_password_salted_sha256:
  "fst (hash_weak_password (utils_world g) s) =
     (if has_surrogate s then Inl UnicodeEncodeError else Inr (spec_hash_password s))
   \<and> fst (hash_weak_password (utils_world g) (str_lit ''password''))
       = Inr (str_lit ''4c7607a637d8c0e9f144ed9c159f71416cd9fc83457a70a475556f9a1b6ee3e0'')
   \<and> fst (hash_weak_password (utils_world g) (str_lit ''''))
       = Inr (str_lit ''197eebc41e268d53e071432f068c3365be4fd445bb08311cb6fc2495ac58bf92'')"
  by (simp add: hash_weak_password_utils no_surrogate_password no_surrogate_empty
      digest_salty_password digest_salty)

text \<open>
  Against C1 as stated: \<open>'\ud800'\<close> is a string, and \<open>hash_weak_password\<close> returns no
  digest for it.
\<close>

theorem hash_weak_password_surrogate_counterexample:
  "wf_str [0xD800]
   \<and> fst (hash_weak_password (utils_world (\<lambda>i. 0)) [0xD800]) = Inl UnicodeEncodeError"
  by (simp add: hash_weak_password_utils wf_str_def has_surrogate_def is_surrogate_def)

lemma length_be_bytes: "length (be_bytes n v) = n"
  by (simp add: be_bytes_def)

lemma length_sha256: "length (sha256 bs) = 32"
  by (simp add: sha256_def Let_def length_be_bytes split: prod.split)

lemma length_hexdigest: "length (hexdigest bs) = 2 * length bs"
  by (induction bs) (simp_all add: hexdigest_def hex_byte_def)

lemma length_hex_alphabet: "length hex_alphabet = 16"
  by (simp add: hex_alphabet_def str_lit_def)

lemma hex_byte_alphabet: "set (hex_byte b) \<subseteq> set hex_alphabet"
proof -
  have "unat b < 256" using unsigned_less [of b] by simp
  then have "unat b div 16 < 16" by simp
  moreover have "unat b mod 16 < 16" by simp
  ultimately show ?thesis
    by (simp add: hex_byte_def length_hex_alphabet)
qed

lemma hexdigest_alphabet: "set (hexdigest bs) \<subseteq> set hex_alphabet"
  using hex_byte_alphabet by (auto simp: hexdigest_def)

text \<open>
  C2, as the code has it: for a string without a surrogate code point the result of
  \<open>hash_weak_password\<close> has exactly 64 characters, each of them one of
  \<open>0123456789abcdef\<close>.
\<close>

theorem hash_weak_password_hex64:
  assumes "\<not> has_surrogate s"
  shows "\<exists>r. fst (hash_weak_password (utils_world g) s) = Inr r \<and> length r = 64
             \<and> set r \<subseteq> set (str_lit ''0123456789abcdef'')"
proof -
  have "fst (hash_weak_password (utils_world g) s) = Inr (spec_hash_password s)"
    using assms by (simp add: hash_weak_password_utils)
  moreover have "length (spec_hash_password s) = 64"
    by (simp add: spec_hash_password_def length_hexdigest length_sha256)
  moreover have "set (spec_hash_password s) \<subseteq> set (str_lit ''0123456789abcdef'')"
    using hexdigest_alphabet by (simp add: spec_hash_password_def hex_alphabet_def)
  ultimately show ?thesis by blast
qed

text \<open>The theorem at the string \<open>password\<close>.\<close>

theorem hash_weak_password_hex64_witness:
  "\<not> has_surrogate (str_lit ''password'')
   \<and> (\<exists>r. fst (hash_weak_password (utils_world (\<lambda>i. 0)) (str_lit ''password'')) = Inr r
          \<and> length r = 64 \<and> set r \<subseteq> set (str_lit ''0123456789abcdef''))"
  using hash_weak_password_hex64 [of "str_lit ''password''" "\<lambda>i. 0"]
  by (simp add: no_surrogate_password)

text \<open>
  Against C2 as stated: \<open>'pw\udfff'\<close> is a string of three characters, and the call
  raises instead of returning 64 hexadecimal digits.
\<close>

theorem hash_weak_password_hex64_counterexample:
  "wf_str (str_lit ''pw'' @ [0xDFFF])
   \<and> fst (hash_weak_password (utils_world (\<lambda>i. 0)) (str_lit ''pw'' @ [0xDFFF]))
       = Inl UnicodeEncodeError"
  by (simp add: hash_weak_password_utils wf_str_def has_surrogate_def is_surrogate_def
      str_lit_def)

text \<open>
  C3: \<open>hash_weak_password\<close> is deterministic. In any world the call leaves the world
  as it was, so a second call runs in the same world; and the result does not depend
  on the state of the random generator.
\<close>

theorem hash_weak_password_deterministic:
  "snd (hash_weak_password w s) = w
   \<and> fst (hash_weak_password (w\<lparr>rng := g\<rparr>) s) = fst (hash_weak_password w s)"
  by (simp add: hash_weak_password_def split: sum.split)

end
